theory Spec2Isabelle
  imports Main
begin

section \<open>The asynchronous Casdoor SDK (\<^verbatim>\<open>casdoor/async_main.py\<close>)\<close>

text \<open>
  A shallow embedding of the class \<^verbatim>\<open>AsyncCasdoorSDK\<close>. Python values are modelled as
  follows: \<^verbatim>\<open>str\<close> is \<open>string\<close>, \<^verbatim>\<open>Optional[str]\<close> is \<open>string option\<close> with
  \<open>None\<close> for Python's \<^verbatim>\<open>None\<close>, a \<^verbatim>\<open>dict\<close> literal is an association list in
  insertion order, and a raised exception is the left injection of a sum type.
\<close>

subsection \<open>Python values\<close>

datatype error =
    TypeError
  | ValueError
  | KeyError
  | AttributeError
  | TransportError
  | CertificateError
  | SignatureError
  | AudienceMismatchError
  | TokenExpiredError
  | MalformedTokenError

text \<open>A decoded JSON document, as \<^verbatim>\<open>response.json()\<close> and \<^verbatim>\<open>json.loads\<close> produce it.\<close>

datatype json =
    JNull
  | JBool bool
  | JNum int
  | JStr string
  | JArr "json list"
  | JObj "(string \<times> json) list"

type_synonym 'v dict = "(string \<times> 'v) list"

text \<open>
  Truth value of an \<^verbatim>\<open>Optional[str]\<close> in a condition (\<^verbatim>\<open>if code:\<close>): \<^verbatim>\<open>None\<close> and
  the empty string are false, every other string is true.
\<close>

fun truthy :: "string option \<Rightarrow> bool" where
  "truthy None = False"
| "truthy (Some s) = (s \<noteq> [])"

text \<open>
  \<^verbatim>\<open>str.replace(old, new)\<close>: every occurrence of \<open>old\<close>, found from the left and not
  overlapping, is replaced. With an empty \<open>old\<close> Python puts \<open>new\<close> before every
  character and at the end.
\<close>

fun startswith :: "string \<Rightarrow> string \<Rightarrow> bool" where
  "startswith s [] = True"
| "startswith [] (p # ps) = False"
| "startswith (c # cs) (p # ps) = (c = p \<and> startswith cs ps)"

function replace :: "string \<Rightarrow> string \<Rightarrow> string \<Rightarrow> string" where
  "replace [] old new = (if old = [] then new else [])"
| "replace (c # cs) old new =
     (if old = [] then new @ c # replace cs old new
      else if startswith (c # cs) old
        then new @ replace (drop (length old) (c # cs)) old new
      else c # replace cs old new)"
  by pat_completeness auto
termination
  by (relation "measure (\<lambda>(s, old, new). length s)") auto

text \<open>\<^verbatim>\<open>sub in s\<close> for strings.\<close>

fun contains :: "string \<Rightarrow> string \<Rightarrow> bool" where
  "contains [] sub = (sub = [])"
| "contains (c # cs) sub = (startswith (c # cs) sub \<or> contains cs sub)"

subsection \<open>The SDK object\<close>

text \<open>
  The attributes set by \<^verbatim>\<open>__init__\<close>. The certificate is any Python object; the property
  \<^verbatim>\<open>certification\<close> accepts only a \<^verbatim>\<open>str\<close>. The HTTP session is not a field here: it
  is passed to every operation that uses it.
\<close>

datatype pyobj = Str string | NotStr

record sdk =
  endpoint :: string
  front_endpoint :: string
  client_id :: string
  client_secret :: string
  certificate :: pyobj
  org_name :: string
  application_name :: string
  grant_type :: string
  algorithms :: "string list"

definition init ::
  "string \<Rightarrow> string \<Rightarrow> string \<Rightarrow> pyobj \<Rightarrow> string \<Rightarrow> string \<Rightarrow> string option \<Rightarrow> sdk" where
  "init endpoint' client_id' client_secret' certificate' org_name' application_name'
        front_endpoint' =
     \<lparr> endpoint = endpoint',
       front_endpoint =
         (if truthy front_endpoint' then the front_endpoint'
          else replace endpoint' '':8000'' '':7001''),
       client_id = client_id',
       client_secret = client_secret',
       certificate = certificate',
       org_name = org_name',
       application_name = application_name',
       grant_type = ''authorization_code'',
       algorithms = [''RS256''] \<rparr>"

definition certification :: "sdk \<Rightarrow> error + string" where
  "certification self =
     (case certificate self of Str s \<Rightarrow> Inr s | NotStr \<Rightarrow> Inl TypeError)"

subsection \<open>Payload builder\<close>

definition get_payload_for_authorization_code :: "sdk \<Rightarrow> string \<Rightarrow> string dict" where
  "get_payload_for_authorization_code self code =
     [(''grant_type'', ''authorization_code''),
      (''client_id'', client_id self),
      (''client_secret'', client_secret self),
      (''code'', code)]"

definition get_payload_for_password_credentials ::
  "sdk \<Rightarrow> string \<Rightarrow> string \<Rightarrow> string dict" where
  "get_payload_for_password_credentials self username password =
     [(''grant_type'', ''password''),
      (''client_id'', client_id self),
      (''client_secret'', client_secret self),
      (''username'', username),
      (''password'', password)]"

definition get_payload_for_client_credentials :: "sdk \<Rightarrow> string dict" where
  "get_payload_for_client_credentials self =
     [(''grant_type'', ''client_credentials''),
      (''client_id'', client_id self),
      (''client_secret'', client_secret self)]"

definition get_payload_for_access_token_request ::
  "sdk \<Rightarrow> string option \<Rightarrow> string option \<Rightarrow> string option \<Rightarrow> string dict" where
  "get_payload_for_access_token_request self code username password =
     (if truthy code then get_payload_for_authorization_code self (the code)
      else if truthy username \<and> truthy password
        then get_payload_for_password_credentials self (the username) (the password)
      else get_payload_for_client_credentials self)"

subsection \<open>The HTTP collaborator\<close>

text \<open>
  The \<^verbatim>\<open>aiohttp\<close> session is an external collaborator. A request is what the SDK hands
  to it: the method, the URL, the query parameters (\<^verbatim>\<open>params=\<close>) and the body
  (\<^verbatim>\<open>data=\<close> with a dict is a form, \<^verbatim>\<open>data=\<close> with a string is sent as it is,
  \<^verbatim>\<open>json=\<close> is serialised by the session). A response is what the SDK reads from it:
  the status, the headers (looked up by lower-case name), and the outcome of
  \<^verbatim>\<open>await response.json()\<close>, which is the decoded body or the exception raised while
  decoding. The session itself is a function from requests to delivered responses, or to
  the exception it raises when no response is delivered.
\<close>

datatype body = NoBody | FormData "string dict" | JsonBody json | RawData string

record request =
  meth :: string
  url :: string
  params :: "string dict"
  body :: body

record response =
  status :: int
  headers :: "string \<rightharpoonup> string"
  json_result :: "error + json"

type_synonym session = "request \<Rightarrow> error + response"

text \<open>\<^verbatim>\<open>d[k] = v\<close> on an insertion-ordered dict.\<close>

fun setitem :: "'v dict \<Rightarrow> string \<Rightarrow> 'v \<Rightarrow> 'v dict" where
  "setitem [] k v = [(k, v)]"
| "setitem ((k', v') # d) k v =
     (if k' = k then (k, v) # d else (k', v') # setitem d k v)"

text \<open>
  \<^verbatim>\<open>r.get(k)\<close> on a decoded JSON document: on a dict the value, or \<^verbatim>\<open>None\<close> (which
  is \<open>JNull\<close>) when the key is missing; a list, string, number, boolean or null has no
  attribute \<^verbatim>\<open>get\<close>.
\<close>

fun py_get :: "json \<Rightarrow> string \<Rightarrow> error + json" where
  "py_get (JObj d) k = (case map_of d k of None \<Rightarrow> Inr JNull | Some v \<Rightarrow> Inr v)"
| "py_get j k = Inl AttributeError"

text \<open>An \<^verbatim>\<open>Optional[str]\<close> inside a dict that the session serialises as JSON.\<close>

fun opt_json :: "string option \<Rightarrow> json" where
  "opt_json None = JNull"
| "opt_json (Some s) = JStr s"

subsection \<open>Token client\<close>

definition private_oauth_token_request :: "sdk \<Rightarrow> session \<Rightarrow> string dict \<Rightarrow> error + json" where
  "private_oauth_token_request self session payload =
     (case session \<lparr> meth = ''POST'',
                      url = endpoint self @ ''/api/login/oauth/access_token'',
                      params = [],
                      body = FormData payload \<rparr> of
        Inl e \<Rightarrow> Inl e
      | Inr response \<Rightarrow> json_result response)"

definition oauth_token_request ::
  "sdk \<Rightarrow> session \<Rightarrow> string option \<Rightarrow> string option \<Rightarrow> string option \<Rightarrow> error + json" where
  "oauth_token_request self session code username password =
     private_oauth_token_request self session
       (get_payload_for_access_token_request self code username password)"

definition get_oauth_token ::
  "sdk \<Rightarrow> session \<Rightarrow> string option \<Rightarrow> string option \<Rightarrow> string option \<Rightarrow> error + json" where
  "get_oauth_token self session code username password =
     (case oauth_token_request self session code username password of
        Inl e \<Rightarrow> Inl e
      | Inr response \<Rightarrow> (let token = response in Inr token))"

definition refresh_token_request :: "sdk \<Rightarrow> session \<Rightarrow> string \<Rightarrow> string \<Rightarrow> error + json" where
  "refresh_token_request self session refresh_token scope =
     (case session \<lparr> meth = ''POST'',
                      url = endpoint self @ ''/api/login/oauth/refresh_token'',
                      params = [],
                      body = FormData
                        [(''grant_type'', ''refresh_token''),
                         (''client_id'', client_id self),
                         (''client_secret'', client_secret self),
                         (''scope'', scope),
                         (''refresh_token'', refresh_token)] \<rparr> of
        Inl e \<Rightarrow> Inl e
      | Inr request \<Rightarrow> json_result request)"

definition refresh_oauth_token :: "sdk \<Rightarrow> session \<Rightarrow> string \<Rightarrow> string \<Rightarrow> error + json" where
  "refresh_oauth_token self session refresh_token scope =
     (case refresh_token_request self session refresh_token scope of
        Inl e \<Rightarrow> Inl e
      | Inr r \<Rightarrow> py_get r ''access_token'')"

subsection \<open>JWT verifier\<close>

text \<open>
  \<^verbatim>\<open>parse_jwt_token\<close> calls two libraries that are not part of the repository:
  \<^verbatim>\<open>cryptography.x509\<close> to read the certificate and \<^verbatim>\<open>jwt.decode\<close> to verify and
  decode the token. Both are modelled from the specification's description of the
  verifier. A key pair is identified by a number; a bearer token is represented by what
  its three parts decode to (the header's algorithm, the key pair that produced the
  signature, and the payload), or by \<open>Malformed\<close> when the string is not a well-formed
  three-part structure. The signature verifies under a public key exactly when the
  token was signed by its key pair.
\<close>

type_synonym key = nat

datatype token = Malformed | Token string key "json dict"

text \<open>
  Modelled from the spec: \<^verbatim>\<open>x509.load_pem_x509_certificate(...).public_key()\<close> is
  missing (library code). Step 1 of the verifier: parse the PEM certificate and extract
  its public key; fails with \<open>CertificateError\<close> if the text is not valid PEM/X.509.
  Which texts are valid certificates, and for which key, is the parameter \<open>pem\<close>.
\<close>

definition load_pem_x509_certificate :: "(string \<Rightarrow> key option) \<Rightarrow> string \<Rightarrow> error + key" where
  "load_pem_x509_certificate pem text =
     (case pem text of None \<Rightarrow> Inl CertificateError | Some public_key \<Rightarrow> Inr public_key)"

text \<open>
  Modelled from the spec: the expiry claim is in the past (\<open>now\<close> is the time of the
  call, in the unit of the claim).
\<close>

definition expired :: "int \<Rightarrow> json dict \<Rightarrow> bool" where
  "expired now payload = (case map_of payload ''exp'' of Some (JNum t) \<Rightarrow> t < now | _ \<Rightarrow> False)"

text \<open>
  Modelled from the spec: \<^verbatim>\<open>jwt.decode(token, key, algorithms=..., audience=...)\<close> is
  missing (library code). A token that is not a well-formed three-part structure fails
  with \<open>MalformedTokenError\<close>. Step 2: the signature is verified with the public key,
  accepting only the algorithms of the allow-list; failure is \<open>SignatureError\<close>. The
  expiry claim in the past is \<open>TokenExpiredError\<close>. Step 3: the audience claim equals
  the expected audience, \<open>AudienceMismatchError\<close> otherwise. Step 4: the decoded claims
  are returned as they are.
\<close>

definition jwt_decode :: "int \<Rightarrow> token \<Rightarrow> key \<Rightarrow> string list \<Rightarrow> string \<Rightarrow> error + json dict" where
  "jwt_decode now tok public_key algs audience =
     (case tok of
        Malformed \<Rightarrow> Inl MalformedTokenError
      | Token alg signer payload \<Rightarrow>
          if \<not> (alg \<in> set algs \<and> signer = public_key) then Inl SignatureError
          else if expired now payload then Inl TokenExpiredError
          else if map_of payload ''aud'' \<noteq> Some (JStr audience) then Inl AudienceMismatchError
          else Inr payload)"

text \<open>The method of the SDK, from the source: every exception of the two calls propagates.\<close>

definition parse_jwt_token ::
  "(string \<Rightarrow> key option) \<Rightarrow> int \<Rightarrow> sdk \<Rightarrow> token \<Rightarrow> error + json dict" where
  "parse_jwt_token pem now self tok =
     (case certification self of
        Inl e \<Rightarrow> Inl e
      | Inr text \<Rightarrow>
          (case load_pem_x509_certificate pem text of
             Inl e \<Rightarrow> Inl e
           | Inr public_key \<Rightarrow>
               jwt_decode now tok public_key (algorithms self) (client_id self)))"

subsection \<open>Facade\<close>

text \<open>
  \<^verbatim>\<open>enforce\<close>. Both \<^verbatim>\<open>raise ValueError(...)\<close> statements are the error \<open>ValueError\<close>
  (the specification calls it \<open>ResponseFormatError\<close>); the message is not modelled.
  \<^verbatim>\<open>response.headers["content-type"]\<close> raises \<open>KeyError\<close> when the response has no
  such header, and is only evaluated when the status is 200 (\<^verbatim>\<open>or\<close> is lazy).
\<close>

definition enforce_request ::
  "sdk \<Rightarrow> string \<Rightarrow> string \<Rightarrow> string \<Rightarrow> string \<Rightarrow>
   string option \<Rightarrow> string option \<Rightarrow> string option \<Rightarrow> request" where
  "enforce_request self permission_model_name sub obj act v3 v4 v5 =
     \<lparr> meth = ''POST'',
       url = endpoint self @ ''/api/enforce'',
       params = [(''clientId'', client_id self),
                 (''clientSecret'', client_secret self)],
       body = JsonBody (JObj
         [(''id'', JStr permission_model_name),
          (''v0'', JStr sub),
          (''v1'', JStr obj),
          (''v2'', JStr act),
          (''v3'', opt_json v3),
          (''v4'', opt_json v4),
          (''v5'', opt_json v5)]) \<rparr>"

text \<open>The body of the \<^verbatim>\<open>async with\<close> block: what is done with a delivered response.\<close>

definition enforce_response :: "response \<Rightarrow> error + bool" where
  "enforce_response response =
     (if status response \<noteq> 200 then Inl ValueError
      else (case headers response ''content-type'' of
              None \<Rightarrow> Inl KeyError
            | Some content_type \<Rightarrow>
                if \<not> contains content_type ''json'' then Inl ValueError
                else (case json_result response of
                        Inl e \<Rightarrow> Inl e
                      | Inr has_permission \<Rightarrow>
                          (case has_permission of
                             JBool b \<Rightarrow> Inr b
                           | _ \<Rightarrow> Inl ValueError))))"

definition enforce ::
  "sdk \<Rightarrow> session \<Rightarrow> string \<Rightarrow> string \<Rightarrow> string \<Rightarrow> string \<Rightarrow>
   string option \<Rightarrow> string option \<Rightarrow> string option \<Rightarrow> error + bool" where
  "enforce self session permission_model_name sub obj act v3 v4 v5 =
     (case session (enforce_request self permission_model_name sub obj act v3 v4 v5) of
        Inl e \<Rightarrow> Inl e
      | Inr response \<Rightarrow> enforce_response response)"

text \<open>The request that \<^verbatim>\<open>get_user_count\<close> sends, and the call.\<close>

definition get_user_count_request :: "sdk \<Rightarrow> bool option \<Rightarrow> request" where
  "get_user_count_request self is_online =
     (let params0 = [(''owner'', org_name self),
                     (''clientId'', client_id self),
                     (''clientSecret'', client_secret self)];
          params1 = (case is_online of
                       None \<Rightarrow> setitem params0 ''isOnline'' []
                     | Some b \<Rightarrow> setitem params0 ''isOnline'' (if b then ''1'' else ''0''))
      in \<lparr> meth = ''GET'',
           url = endpoint self @ ''/api/get-user-count'',
           params = params1,
           body = NoBody \<rparr>)"

definition get_user_count :: "sdk \<Rightarrow> session \<Rightarrow> bool option \<Rightarrow> error + json" where
  "get_user_count self session is_online =
     (case session (get_user_count_request self is_online) of
        Inl e \<Rightarrow> Inl e
      | Inr request \<Rightarrow> json_result request)"

text \<open>
  The class \<^verbatim>\<open>User\<close> (module \<^verbatim>\<open>casdoor.user\<close>) is not among the sources. A user
  object has the attributes \<^verbatim>\<open>owner\<close> and \<^verbatim>\<open>name\<close> that \<^verbatim>\<open>modify_user\<close> reads and
  writes; all its other attributes are the extension of the record. Its method
  \<^verbatim>\<open>to_dict\<close> and \<^verbatim>\<open>json.dumps\<close> are parameters: functions of their argument
  that change nothing.
\<close>

record user =
  owner :: string
  name :: string

text \<open>
  \<^verbatim>\<open>modify_user\<close> assigns \<^verbatim>\<open>user.owner\<close> before anything else, so the caller's object
  is changed whatever the request does: the result is the user object after the call,
  together with the returned document or the raised exception.
\<close>

definition modify_user_request ::
  "('a user_scheme \<Rightarrow> json) \<Rightarrow> (json \<Rightarrow> string) \<Rightarrow> sdk \<Rightarrow> string \<Rightarrow> 'a user_scheme \<Rightarrow> request" where
  "modify_user_request to_dict dumps self method user =
     \<lparr> meth = ''POST'',
       url = endpoint self @ ''/api/'' @ method,
       params = [(''id'', owner user @ ''/'' @ name user),
                 (''clientId'', client_id self),
                 (''clientSecret'', client_secret self)],
       body = RawData (dumps (to_dict user)) \<rparr>"

definition modify_user ::
  "('a user_scheme \<Rightarrow> json) \<Rightarrow> (json \<Rightarrow> string) \<Rightarrow> sdk \<Rightarrow> session \<Rightarrow> string \<Rightarrow>
   'a user_scheme \<Rightarrow> 'a user_scheme \<times> (error + json)" where
  "modify_user to_dict dumps self session method user =
     (let user' = user\<lparr>owner := org_name self\<rparr>
      in (user',
          case session (modify_user_request to_dict dumps self method user') of
            Inl e \<Rightarrow> Inl e
          | Inr request \<Rightarrow> json_result request))"

definition add_user ::
  "('a user_scheme \<Rightarrow> json) \<Rightarrow> (json \<Rightarrow> string) \<Rightarrow> sdk \<Rightarrow> session \<Rightarrow>
   'a user_scheme \<Rightarrow> 'a user_scheme \<times> (error + json)" where
  "add_user to_dict dumps self session user =
     modify_user to_dict dumps self session ''add-user'' user"

definition update_user ::
  "('a user_scheme \<Rightarrow> json) \<Rightarrow> (json \<Rightarrow> string) \<Rightarrow> sdk \<Rightarrow> session \<Rightarrow>
   'a user_scheme \<Rightarrow> 'a user_scheme \<times> (error + json)" where
  "update_user to_dict dumps self session user =
     modify_user to_dict dumps self session ''update-user'' user"

definition delete_user ::
  "('a user_scheme \<Rightarrow> json) \<Rightarrow> (json \<Rightarrow> string) \<Rightarrow> sdk \<Rightarrow> session \<Rightarrow>
   'a user_scheme \<Rightarrow> 'a user_scheme \<times> (error + json)" where
  "delete_user to_dict dumps self session user =
     modify_user to_dict dumps self session ''delete-user'' user"

subsection \<open>Concrete objects for the examples\<close>

text \<open>An SDK object, a session that delivers one response to every request, and a
  response with status 200 and a JSON body.\<close>

definition sdk0 :: sdk where
  "sdk0 = init ''http://localhost:8000'' ''cid'' ''secret'' (Str ''PEM'') ''org'' ''app'' None"

definition respond :: "response \<Rightarrow> session" where
  "respond r request = Inr r"

definition json_response :: "json \<Rightarrow> response" where
  "json_response j =
     \<lparr> status = 200, headers = [''content-type'' \<mapsto> ''application/json''], json_result = Inr j \<rparr>"

text \<open>The certificate text of \<open>sdk0\<close> is the certificate of key 1; no other text is a
  certificate.\<close>

definition pem0 :: "string \<Rightarrow> key option" where
  "pem0 text = (if text = ''PEM'' then Some 1 else None)"

section \<open>Properties\<close>

subsection \<open>Strings\<close>








subsection \<open>Payload builder\<close>

text \<open>
  An empty string is a code that is present, and it does not select the
  authorization-code payload: with a user name and a password the password payload is
  built.
\<close>

theorem payload_empty_code_counterexample:
  "get_payload_for_access_token_request sdk0 (Some []) (Some ''alice'') (Some ''pw'')
     = [(''grant_type'', ''password''), (''client_id'', ''cid''), (''client_secret'', ''secret''),
        (''username'', ''alice''), (''password'', ''pw'')]
   \<and> get_payload_for_access_token_request sdk0 (Some []) (Some ''alice'') (Some ''pw'')
     \<noteq> [(''grant_type'', ''authorization_code''), (''client_id'', ''cid''),
        (''client_secret'', ''secret''), (''code'', [])]"
  by (simp add: get_payload_for_access_token_request_def
      get_payload_for_password_credentials_def sdk0_def init_def)

text \<open>
  C1, with "present" read as Python reads it in a condition (a string that is not
  empty): a non-empty code gives the authorization-code payload whatever the other
  two fields are; without one, a non-empty user name together with a non-empty password
  gives the password payload; every other input, partial credentials included, gives the
  client-credentials payload.
\<close>

theorem payload_precedence:
  "(code = Some c \<and> c \<noteq> [] \<longrightarrow>
      get_payload_for_access_token_request self code username password =
        [(''grant_type'', ''authorization_code''), (''client_id'', client_id self),
         (''client_secret'', client_secret self), (''code'', c)])
   \<and> ((code = None \<or> code = Some []) \<and> username = Some u \<and> u \<noteq> [] \<and>
        password = Some p \<and> p \<noteq> [] \<longrightarrow>
      get_payload_for_access_token_request self code username password =
        [(''grant_type'', ''password''), (''client_id'', client_id self),
         (''client_secret'', client_secret self), (''username'', u), (''password'', p)])
   \<and> ((code = None \<or> code = Some []) \<and>
        (username = None \<or> username = Some [] \<or> password = None \<or> password = Some []) \<longrightarrow>
      get_payload_for_access_token_request self code username password =
        [(''grant_type'', ''client_credentials''), (''client_id'', client_id self),
         (''client_secret'', client_secret self)])"
  by (cases code; cases username; cases password)
    (auto simp: get_payload_for_access_token_request_def
      get_payload_for_authorization_code_def get_payload_for_password_credentials_def
      get_payload_for_client_credentials_def)

theorem payload_precedence_witness:
  "get_payload_for_access_token_request sdk0 (Some ''c0de'') (Some ''alice'') (Some ''pw'') =
     [(''grant_type'', ''authorization_code''), (''client_id'', client_id sdk0),
      (''client_secret'', client_secret sdk0), (''code'', ''c0de'')]
   \<and> get_payload_for_access_token_request sdk0 None (Some ''alice'') (Some ''pw'') =
     [(''grant_type'', ''password''), (''client_id'', client_id sdk0),
      (''client_secret'', client_secret sdk0), (''username'', ''alice''), (''password'', ''pw'')]
   \<and> get_payload_for_access_token_request sdk0 None (Some ''alice'') None =
     [(''grant_type'', ''client_credentials''), (''client_id'', client_id sdk0),
      (''client_secret'', client_secret sdk0)]"
  using payload_precedence [of "Some ''c0de''" "''c0de''" sdk0 "Some ''alice''" "Some ''pw''"]
    payload_precedence [of None _ sdk0 "Some ''alice''" "Some ''pw''" "''alice''" "''pw''"]
    payload_precedence [of None _ sdk0 "Some ''alice''" None]
  by simp

subsection \<open>Construction\<close>




subsection \<open>Token client\<close>

text \<open>
  C9: \<^verbatim>\<open>get_oauth_token\<close> returns what \<^verbatim>\<open>oauth_token_request\<close> returns for the same
  three arguments, and that is the whole decoded JSON body of the response to the token
  request, not the access-token string alone.
\<close>

theorem get_oauth_token_full_response:
  "get_oauth_token self session code username password =
     oauth_token_request self session code username password
   \<and> oauth_token_request self session code username password =
     (case session \<lparr> meth = ''POST'',
                      url = endpoint self @ ''/api/login/oauth/access_token'',
                      params = [],
                      body = FormData
                        (get_payload_for_access_token_request self code username password) \<rparr> of
        Inl e \<Rightarrow> Inl e
      | Inr response \<Rightarrow> json_result response)"
  by (simp add: get_oauth_token_def oauth_token_request_def private_oauth_token_request_def
      split: sum.splits)

text \<open>
  C5: when the refresh response is a mapping \<open>r\<close>, \<^verbatim>\<open>refresh_oauth_token\<close> returns the
  value of the field \<open>access_token\<close> of \<open>r\<close> when the field is present and \<^verbatim>\<open>None\<close>
  (\<open>JNull\<close>) when it is missing, and it raises nothing.
\<close>

theorem refresh_oauth_token_access_token:
  assumes "refresh_token_request self session refresh_token scope = Inr (JObj r)"
  shows "(\<forall>v. map_of r ''access_token'' = Some v \<longrightarrow>
            refresh_oauth_token self session refresh_token scope = Inr v)
         \<and> (map_of r ''access_token'' = None \<longrightarrow>
            refresh_oauth_token self session refresh_token scope = Inr JNull)
         \<and> (\<forall>e. refresh_oauth_token self session refresh_token scope \<noteq> Inl e)"
  using assms by (auto simp: refresh_oauth_token_def split: option.splits)

theorem refresh_oauth_token_access_token_witness:
  "refresh_oauth_token sdk0
     (respond (json_response (JObj [(''access_token'', JStr ''tok123''),
                                    (''token_type'', JStr ''Bearer'')]))) ''rt'' [] =
     Inr (JStr ''tok123'')
   \<and> refresh_oauth_token sdk0
     (respond (json_response (JObj [(''token_type'', JStr ''Bearer'')]))) ''rt'' [] =
     Inr JNull"
proof -
  have present: "refresh_token_request sdk0
      (respond (json_response (JObj [(''access_token'', JStr ''tok123''),
                                     (''token_type'', JStr ''Bearer'')]))) ''rt'' [] =
      Inr (JObj [(''access_token'', JStr ''tok123''), (''token_type'', JStr ''Bearer'')])"
    by (simp add: refresh_token_request_def respond_def json_response_def)
  have missing: "refresh_token_request sdk0
      (respond (json_response (JObj [(''token_type'', JStr ''Bearer'')]))) ''rt'' [] =
      Inr (JObj [(''token_type'', JStr ''Bearer'')])"
    by (simp add: refresh_token_request_def respond_def json_response_def)
  show ?thesis
    using refresh_oauth_token_access_token [OF present]
      refresh_oauth_token_access_token [OF missing]
    by simp
qed

subsection \<open>JWT verifier\<close>

text \<open>
  A token for another audience that was signed by key 2, not by the key of the
  certificate: the signature check of step 2 comes before the audience check of step 3,
  and the failure is \<open>SignatureError\<close>.
\<close>

theorem parse_jwt_token_signature_first_counterexample:
  "parse_jwt_token pem0 1000 sdk0
     (Token ''RS256'' 2 [(''aud'', JStr ''other''), (''exp'', JNum 2000)]) = Inl SignatureError"
  by (simp add: parse_jwt_token_def certification_def load_pem_x509_certificate_def
      jwt_decode_def sdk0_def init_def pem0_def)

text \<open>
  C2, for the verifier in the order of its steps: a well-formed token whose audience
  claim is not the configured client id never yields claims, and the failure is
  \<open>AudienceMismatchError\<close> whenever the earlier checks pass, that is when the
  certificate is read, the token is signed with an algorithm of the allow-list by the
  key of the certificate, and it has not expired. When an earlier check fails, the
  failure is the error of the first check that fails: \<open>TypeError\<close> for a certificate
  that is not a string, \<open>CertificateError\<close> for a text that is not a certificate,
  \<open>SignatureError\<close> for an algorithm outside the allow-list or a signature by another
  key, \<open>TokenExpiredError\<close> for an expiry in the past.
\<close>

theorem parse_jwt_token_audience:
  assumes "map_of payload ''aud'' \<noteq> Some (JStr (client_id self))"
  shows "(\<forall>claims. parse_jwt_token pem now self (Token alg signer payload) \<noteq> Inr claims)
       \<and> (certificate self = Str text \<and> pem text = Some signer \<and> alg \<in> set (algorithms self) \<and>
            \<not> expired now payload \<longrightarrow>
          parse_jwt_token pem now self (Token alg signer payload) = Inl AudienceMismatchError)
       \<and> (certificate self = NotStr \<longrightarrow>
          parse_jwt_token pem now self (Token alg signer payload) = Inl TypeError)
       \<and> (certificate self = Str text \<and> pem text = None \<longrightarrow>
          parse_jwt_token pem now self (Token alg signer payload) = Inl CertificateError)
       \<and> (certificate self = Str text \<and> pem text = Some public_key \<and>
            (alg \<notin> set (algorithms self) \<or> signer \<noteq> public_key) \<longrightarrow>
          parse_jwt_token pem now self (Token alg signer payload) = Inl SignatureError)
       \<and> (certificate self = Str text \<and> pem text = Some signer \<and> alg \<in> set (algorithms self) \<and>
            expired now payload \<longrightarrow>
          parse_jwt_token pem now self (Token alg signer payload) = Inl TokenExpiredError)"
  using assms
  by (auto simp: parse_jwt_token_def certification_def load_pem_x509_certificate_def
      jwt_decode_def split: pyobj.splits option.splits)

theorem parse_jwt_token_audience_witness:
  "parse_jwt_token pem0 1000 sdk0
     (Token ''RS256'' 1 [(''aud'', JStr ''other''), (''exp'', JNum 2000)]) =
     Inl AudienceMismatchError
   \<and> parse_jwt_token pem0 1000 sdk0
     (Token ''RS256'' 1 [(''aud'', JStr ''other''), (''exp'', JNum 500)]) =
     Inl TokenExpiredError
   \<and> parse_jwt_token pem0 1000 sdk0
     (Token ''HS256'' 1 [(''aud'', JStr ''other''), (''exp'', JNum 2000)]) =
     Inl SignatureError"
proof -
  have aud: "map_of [(''aud'', JStr ''other''), (''exp'', JNum t)] ''aud'' \<noteq>
      Some (JStr (client_id sdk0))" for t
    by (simp add: sdk0_def init_def)
  have cert: "certificate sdk0 = Str ''PEM'' \<and> pem0 ''PEM'' = Some 1 \<and>
      ''RS256'' \<in> set (algorithms sdk0) \<and> ''HS256'' \<notin> set (algorithms sdk0)"
    by (simp add: sdk0_def init_def pem0_def)
  have fresh: "\<not> expired 1000 [(''aud'', JStr ''other''), (''exp'', JNum 2000)]"
    by (simp add: expired_def)
  have stale: "expired 1000 [(''aud'', JStr ''other''), (''exp'', JNum 500)]"
    by (simp add: expired_def)
  show ?thesis
    using parse_jwt_token_audience [OF aud, of pem0 1000 "''RS256''" 1 2000 "''PEM''"]
      parse_jwt_token_audience [OF aud, of pem0 1000 "''RS256''" 1 500 "''PEM''"]
      parse_jwt_token_audience [OF aud, of pem0 1000 "''HS256''" 1 2000 "''PEM''" 1]
      cert fresh stale
    by blast
qed

text \<open>
  C3: for an SDK object made by the constructor, whose allow-list is \<open>[RS256]\<close>, a token
  signed with another algorithm, or by a key that is not the public key of the
  configured certificate, makes \<^verbatim>\<open>parse_jwt_token\<close> raise: no claims are returned.
\<close>

theorem parse_jwt_token_fails_closed:
  assumes "alg \<noteq> ''RS256'' \<or> (\<forall>text. cert = Str text \<longrightarrow> pem text \<noteq> Some signer)"
  shows "\<exists>e. parse_jwt_token pem now (init e0 cid secret cert org app front)
            (Token alg signer payload) = Inl e"
  using assms
  by (auto simp: parse_jwt_token_def certification_def load_pem_x509_certificate_def
      jwt_decode_def init_def split: pyobj.splits option.splits)

theorem parse_jwt_token_fails_closed_witness:
  "(\<exists>e. parse_jwt_token pem0 1000
          (init ''http://localhost:8000'' ''cid'' ''secret'' (Str ''PEM'') ''org'' ''app'' None)
          (Token ''HS256'' 1 [(''aud'', JStr ''cid''), (''exp'', JNum 2000)]) = Inl e)
   \<and> (\<exists>e. parse_jwt_token pem0 1000
          (init ''http://localhost:8000'' ''cid'' ''secret'' (Str ''PEM'') ''org'' ''app'' None)
          (Token ''RS256'' 2 [(''aud'', JStr ''cid''), (''exp'', JNum 2000)]) = Inl e)"
proof -
  have other_alg: "''HS256'' \<noteq> ''RS256'' \<or>
      (\<forall>text. Str ''PEM'' = Str text \<longrightarrow> pem0 text \<noteq> Some 1)"
    by simp
  have other_key: "''RS256'' \<noteq> ''RS256'' \<or>
      (\<forall>text. Str ''PEM'' = Str text \<longrightarrow> pem0 text \<noteq> Some 2)"
    by (simp add: pem0_def)
  show ?thesis
    using parse_jwt_token_fails_closed [OF other_alg] parse_jwt_token_fails_closed [OF other_key]
    by blast
qed

subsection \<open>Facade\<close>

text \<open>
  A response with status 200, a JSON content type and the body \<open>false\<close> makes
  \<^verbatim>\<open>enforce\<close> return \<open>False\<close>, which is neither \<open>True\<close> nor an error; and a response
  with status 200 and no content-type header makes it raise \<open>KeyError\<close>.
\<close>

theorem enforce_false_counterexample:
  "enforce sdk0 (respond (json_response (JBool False)))
     ''model'' ''alice'' ''data1'' ''read'' None None None = Inr False
   \<and> enforce sdk0 (respond (json_response (JBool False)))
     ''model'' ''alice'' ''data1'' ''read'' None None None \<notin> {Inr True, Inl ValueError}
   \<and> enforce sdk0
       (respond \<lparr> status = 200, headers = Map.empty, json_result = Inr (JBool True) \<rparr>)
       ''model'' ''alice'' ''data1'' ''read'' None None None = Inl KeyError"
  by (simp add: enforce_def enforce_response_def respond_def json_response_def)

text \<open>
  C4, for a delivered response: with status 200, a content type that contains \<open>json\<close>
  and a body that decodes to a boolean, \<^verbatim>\<open>enforce\<close> returns that boolean, \<open>True\<close> or
  \<open>False\<close>; with a status other than 200, or a content type without \<open>json\<close>, it raises
  the \<open>ValueError\<close> that the specification calls \<open>ResponseFormatError\<close>; with a decoded
  body that is not a boolean it raises the same error; and when the response has a
  content-type header and its body decodes, these are the only outcomes.
\<close>

theorem enforce_outcomes:
  assumes "session (enforce_request self model sub obj act v3 v4 v5) = Inr response"
  shows "(status response = 200 \<and> headers response ''content-type'' = Some ct \<and>
            contains ct ''json'' \<and> json_result response = Inr (JBool b) \<longrightarrow>
          enforce self session model sub obj act v3 v4 v5 = Inr b)
       \<and> (status response \<noteq> 200 \<or>
            (headers response ''content-type'' = Some ct \<and> \<not> contains ct ''json'') \<longrightarrow>
          enforce self session model sub obj act v3 v4 v5 = Inl ValueError)
       \<and> (status response = 200 \<and> headers response ''content-type'' = Some ct \<and>
            contains ct ''json'' \<and> json_result response = Inr v \<and> (\<forall>b. v \<noteq> JBool b) \<longrightarrow>
          enforce self session model sub obj act v3 v4 v5 = Inl ValueError)
       \<and> (headers response ''content-type'' \<noteq> None \<and> (\<exists>v. json_result response = Inr v) \<longrightarrow>
          enforce self session model sub obj act v3 v4 v5 \<in> {Inr True, Inr False, Inl ValueError})"
  using assms
  by (auto simp: enforce_def enforce_response_def split: json.splits option.splits sum.splits)

theorem enforce_outcomes_witness:
  "enforce sdk0 (respond (json_response (JBool True)))
     ''model'' ''alice'' ''data1'' ''read'' None None None = Inr True
   \<and> enforce sdk0 (respond (json_response (JStr ''yes'')))
     ''model'' ''alice'' ''data1'' ''read'' None None None = Inl ValueError
   \<and> enforce sdk0 (respond \<lparr> status = 500, headers = Map.empty, json_result = Inl ValueError \<rparr>)
     ''model'' ''alice'' ''data1'' ''read'' None None None = Inl ValueError"
proof -
  have d1: "respond (json_response (JBool True))
      (enforce_request sdk0 ''model'' ''alice'' ''data1'' ''read'' None None None) =
      Inr (json_response (JBool True))"
    by (simp add: respond_def)
  have d2: "respond (json_response (JStr ''yes''))
      (enforce_request sdk0 ''model'' ''alice'' ''data1'' ''read'' None None None) =
      Inr (json_response (JStr ''yes''))"
    by (simp add: respond_def)
  have d3: "respond \<lparr> status = 500, headers = Map.empty, json_result = Inl ValueError \<rparr>
      (enforce_request sdk0 ''model'' ''alice'' ''data1'' ''read'' None None None) =
      Inr \<lparr> status = 500, headers = Map.empty, json_result = Inl ValueError \<rparr>"
    by (simp add: respond_def)
  show ?thesis
    using enforce_outcomes [where session = "respond (json_response (JBool True))"
        and ct = "''application/json''" and b = True, OF d1]
      enforce_outcomes [where session = "respond (json_response (JStr ''yes''))"
        and ct = "''application/json''" and v = "JStr ''yes''", OF d2]
      enforce_outcomes [where session =
          "respond \<lparr> status = 500, headers = Map.empty, json_result = Inl ValueError \<rparr>",
        OF d3]
    by (simp add: json_response_def)
qed

text \<open>
  With \<^verbatim>\<open>is_online\<close> unset the request does not omit the parameter: \<open>isOnline\<close> is sent
  with the empty string as its value.
\<close>

theorem get_user_count_unset_counterexample:
  "map_of (params (get_user_count_request sdk0 None)) ''isOnline'' = Some []
   \<and> params (get_user_count_request sdk0 None) =
       [(''owner'', ''org''), (''clientId'', ''cid''), (''clientSecret'', ''secret''),
        (''isOnline'', [])]"
  by (simp add: get_user_count_request_def sdk0_def init_def)

text \<open>
  C6, as the query is built: \<^verbatim>\<open>get_user_count\<close> always sends the parameter
  \<open>isOnline\<close> after the owner and the client credentials, with the empty string when
  \<^verbatim>\<open>is_online\<close> is unset, \<open>1\<close> when it is true and \<open>0\<close> when it is false.
\<close>

theorem get_user_count_filter:
  "params (get_user_count_request self None) =
     [(''owner'', org_name self), (''clientId'', client_id self),
      (''clientSecret'', client_secret self), (''isOnline'', [])]
   \<and> params (get_user_count_request self (Some True)) =
     [(''owner'', org_name self), (''clientId'', client_id self),
      (''clientSecret'', client_secret self), (''isOnline'', ''1'')]
   \<and> params (get_user_count_request self (Some False)) =
     [(''owner'', org_name self), (''clientId'', client_id self),
      (''clientSecret'', client_secret self), (''isOnline'', ''0'')]
   \<and> get_user_count self session is_online =
     (case session (get_user_count_request self is_online) of
        Inl e \<Rightarrow> Inl e
      | Inr response \<Rightarrow> json_result response)"
  by (simp add: get_user_count_request_def get_user_count_def)

lemma modify_user_sends:
  "modify_user to_dict dumps self session method user =
     (user\<lparr>owner := org_name self\<rparr>,
      case session
             \<lparr> meth = ''POST'',
               url = endpoint self @ ''/api/'' @ method,
               params = [(''id'', org_name self @ ''/'' @ name user),
                         (''clientId'', client_id self),
                         (''clientSecret'', client_secret self)],
               body = RawData (dumps (to_dict (user\<lparr>owner := org_name self\<rparr>))) \<rparr> of
        Inl e \<Rightarrow> Inl e
      | Inr response \<Rightarrow> json_result response)"
  by (simp add: modify_user_def modify_user_request_def Let_def)

text \<open>
  C7: for every user object, whatever its owner, \<^verbatim>\<open>add_user\<close>, \<^verbatim>\<open>update_user\<close> and
  \<^verbatim>\<open>delete_user\<close> return the decoded body of the response to one POST request to
  \<open>/api/add-user\<close>, \<open>/api/update-user\<close> and \<open>/api/delete-user\<close>: its query has
  \<open>id\<close> equal to the configured organization name, a slash and the user's name, and its
  body is the serialisation of the whole user object with the owner overwritten by the
  configured organization name.
\<close>

theorem user_calls_request:
  "snd (add_user to_dict dumps self session user) =
     (case session
             \<lparr> meth = ''POST'',
               url = endpoint self @ ''/api/add-user'',
               params = [(''id'', org_name self @ ''/'' @ name user),
                         (''clientId'', client_id self),
                         (''clientSecret'', client_secret self)],
               body = RawData (dumps (to_dict (user\<lparr>owner := org_name self\<rparr>))) \<rparr> of
        Inl e \<Rightarrow> Inl e
      | Inr response \<Rightarrow> json_result response)
   \<and> snd (update_user to_dict dumps self session user) =
     (case session
             \<lparr> meth = ''POST'',
               url = endpoint self @ ''/api/update-user'',
               params = [(''id'', org_name self @ ''/'' @ name user),
                         (''clientId'', client_id self),
                         (''clientSecret'', client_secret self)],
               body = RawData (dumps (to_dict (user\<lparr>owner := org_name self\<rparr>))) \<rparr> of
        Inl e \<Rightarrow> Inl e
      | Inr response \<Rightarrow> json_result response)
   \<and> snd (delete_user to_dict dumps self session user) =
     (case session
             \<lparr> meth = ''POST'',
               url = endpoint self @ ''/api/delete-user'',
               params = [(''id'', org_name self @ ''/'' @ name user),
                         (''clientId'', client_id self),
                         (''clientSecret'', client_secret self)],
               body = RawData (dumps (to_dict (user\<lparr>owner := org_name self\<rparr>))) \<rparr> of
        Inl e \<Rightarrow> Inl e
      | Inr response \<Rightarrow> json_result response)"
  by (simp add: add_user_def update_user_def delete_user_def modify_user_sends)

text \<open>
  C10: after \<^verbatim>\<open>add_user\<close>, \<^verbatim>\<open>update_user\<close> or \<^verbatim>\<open>delete_user\<close>, whatever the request
  did, the owner of the caller's user object is the configured organization name, and
  its name and all its other attributes are what they were before the call.
\<close>

theorem user_calls_mutate_owner_only:
  "owner (fst (add_user to_dict dumps self session user)) = org_name self
   \<and> name (fst (add_user to_dict dumps self session user)) = name user
   \<and> user.more (fst (add_user to_dict dumps self session user)) = user.more user
   \<and> owner (fst (update_user to_dict dumps self session user)) = org_name self
   \<and> name (fst (update_user to_dict dumps self session user)) = name user
   \<and> user.more (fst (update_user to_dict dumps self session user)) = user.more user
   \<and> owner (fst (delete_user to_dict dumps self session user)) = org_name self
   \<and> name (fst (delete_user to_dict dumps self session user)) = name user
   \<and> user.more (fst (delete_user to_dict dumps self session user)) = user.more user"
  by (simp add: add_user_def update_user_def delete_user_def modify_user_sends)

end
